theory Spec2Isabelle
  imports Complex_Main "HOL-Library.Word" "HOL-Library.Log_Nat"
begin

unbundle bit_operations_syntax

section \<open>JavaScript numbers restricted to integer values\<close>

text \<open>
  Every number that the generator core of \<^verbatim>\<open>src/script.js\<close> handles before the final
  division of \<^verbatim>\<open>seededRandom\<close> is an integer-valued IEEE-754 double.  Such a number is
  modelled by the \<open>int\<close> it denotes.  The arithmetic operators \<^verbatim>\<open>+\<close>, \<^verbatim>\<open>-\<close> and \<^verbatim>\<open>*\<close> of
  JavaScript compute the exact result and round it to the nearest double (ties to the even
  significand); on integers this is \<open>round_double\<close>: a value of at most 53 significant
  bits is kept, a longer one loses its low bits.  (Overflow to infinity, beyond \<open>2^1024\<close>,
  is outside every value that a valid \<^verbatim>\<open>Date\<close> produces and is not modelled.)
\<close>

definition round_double :: "int \<Rightarrow> int" where
  "round_double n =
     (let a = \<bar>n\<bar>; e = bitlen a - 53 in
      if e \<le> 0 then n
      else
        let u = 2 ^ nat e; q = a div u; r = a mod u;
            q' = (if u < 2 * r \<or> (2 * r = u \<and> odd q) then q + 1 else q)
        in sgn n * (q' * u))"

definition js_add :: "int \<Rightarrow> int \<Rightarrow> int" where
  "js_add a b = round_double (a + b)"

definition js_sub :: "int \<Rightarrow> int \<Rightarrow> int" where
  "js_sub a b = round_double (a - b)"

definition js_mul :: "int \<Rightarrow> int \<Rightarrow> int" where
  "js_mul a b = round_double (a * b)"

text \<open>
  The remainder operator \<^verbatim>\<open>%\<close> is exact and takes the sign of the dividend.
\<close>

definition js_rem :: "int \<Rightarrow> int \<Rightarrow> int" where
  "js_rem a b = sgn a * (\<bar>a\<bar> mod \<bar>b\<bar>)"

text \<open>
  The bitwise operators first convert their operands with ToInt32 (ToUint32 for the left
  operand of \<^verbatim>\<open>>>>\<close>), that is, modulo \<open>2^32\<close>; the result is read back as a signed
  32-bit value, for \<^verbatim>\<open>>>>\<close> as an unsigned one.  The shift count is taken modulo 32.
\<close>

type_synonym int32 = "32 word"

definition ToInt32 :: "int \<Rightarrow> int32" where
  "ToInt32 n = word_of_int n"

definition js_or :: "int \<Rightarrow> int \<Rightarrow> int" where
  "js_or a b = sint (ToInt32 a OR ToInt32 b)"

definition js_and :: "int \<Rightarrow> int \<Rightarrow> int" where
  "js_and a b = sint (ToInt32 a AND ToInt32 b)"

definition js_xor :: "int \<Rightarrow> int \<Rightarrow> int" where
  "js_xor a b = sint (ToInt32 a XOR ToInt32 b)"

definition js_shl :: "int \<Rightarrow> nat \<Rightarrow> int" where
  "js_shl a k = sint (push_bit (k mod 32) (ToInt32 a))"

definition js_ushr :: "int \<Rightarrow> nat \<Rightarrow> int" where
  "js_ushr a k = uint (drop_bit (k mod 32) (ToInt32 a))"

definition Math_imul :: "int \<Rightarrow> int \<Rightarrow> int" where
  "Math_imul a b = sint (ToInt32 a * ToInt32 b)"

section \<open>Configuration\<close>

text \<open>
  \<^verbatim>\<open>CONFIG.rtpRanges\<close> and \<^verbatim>\<open>CONFIG.multipliers\<close>; each table entry is the pair of its
  \<^verbatim>\<open>value\<close> and \<^verbatim>\<open>type\<close>.
\<close>

definition rtpRanges_min :: int where
  "rtpRanges_min = 30"

definition rtpRanges_max :: int where
  "rtpRanges_max = 99"

definition multipliers :: "(string \<times> string) list" where
  "multipliers =
     [(''3X'', ''low''), (''7X'', ''low''), (''9X'', ''medium''),
      (''10X'', ''medium''), (''11X'', ''medium''), (''13X'', ''high''),
      (''15X'', ''high''), (''17X'', ''high''), (''20X'', ''high'')]"

section \<open>Time quantizer\<close>

text \<open>
  The \<^verbatim>\<open>Date\<close> object \<^verbatim>\<open>now\<close> is modelled by its local calendar fields, as the getters
  report them: \<^verbatim>\<open>getMonth\<close> counts from 0, \<^verbatim>\<open>getDate\<close> from 1.  A valid \<^verbatim>\<open>Date\<close> lies
  within 100 000 000 days of the epoch, which bounds the year.
\<close>

record local_time =
  FullYear :: int
  Month :: int
  Date :: int
  Hours :: int
  Minutes :: int
  Seconds :: int
  Milliseconds :: int

definition valid_time :: "local_time \<Rightarrow> bool" where
  "valid_time now \<longleftrightarrow>
     - 271821 \<le> FullYear now \<and> FullYear now \<le> 275760 \<and>
     0 \<le> Month now \<and> Month now \<le> 11 \<and>
     1 \<le> Date now \<and> Date now \<le> 31 \<and>
     0 \<le> Hours now \<and> Hours now \<le> 23 \<and>
     0 \<le> Minutes now \<and> Minutes now \<le> 59 \<and>
     0 \<le> Seconds now \<and> Seconds now \<le> 59 \<and>
     0 \<le> Milliseconds now \<and> Milliseconds now \<le> 999"

definition getTimeSeed :: "local_time \<Rightarrow> int" where
  "getTimeSeed now =
     js_add (js_add (js_add (js_add
       (js_mul (FullYear now) 525600)
       (js_mul (Month now) 43800))
       (js_mul (Date now) 1440))
       (js_mul (Hours now) 60))
       (Minutes now)"

section \<open>Seeded generator\<close>

text \<open>
  \<^verbatim>\<open>seededRandom\<close>, line by line.  The result is an unsigned 32-bit integer divided by
  \<open>2^32\<close>, a division that is exact in double precision.
\<close>

definition seededRandom :: "int \<Rightarrow> real" where
  "seededRandom seed0 =
     (let seed1 = \<bar>js_or seed0 0\<bar>;
          seed2 = js_add seed1 0x6D2B79F5;
          t1 = seed2;
          t2 = Math_imul (js_xor t1 (js_ushr t1 15)) (js_or t1 1);
          t3 = js_xor t2 (js_add t2 (Math_imul (js_xor t2 (js_ushr t2 7)) (js_or t2 61)))
      in real_of_int (js_ushr (js_xor t3 (js_ushr t3 14)) 0) / 4294967296)"

text \<open>
  Line 71 of \<^verbatim>\<open>getSeededRandomInt\<close>, the linear-congruential step on the seed.
\<close>

definition lcgStep :: "int \<Rightarrow> int" where
  "lcgStep seed = js_rem (js_add (js_mul seed 9301) 49297) 233280"

text \<open>
  \<^verbatim>\<open>getSeededRandomInt\<close>.  The product \<^verbatim>\<open>random * (max - min + 1)\<close> of a multiple of
  \<open>2^-32\<close> below 1 and an integer below \<open>2^21\<close> is exact in double precision; the ranges
  of \<^verbatim>\<open>CONFIG\<close> are far below that.
\<close>

definition getSeededRandomInt :: "int \<Rightarrow> int \<Rightarrow> int \<Rightarrow> int" where
  "getSeededRandomInt seed min_v max_v =
     (let random = seededRandom (lcgStep seed)
      in \<lfloor>random * real_of_int (max_v - min_v + 1)\<rfloor> + min_v)"

section \<open>String hasher\<close>

text \<open>
  A JavaScript string is a sequence of 16-bit code units; \<^verbatim>\<open>charCodeAt\<close> reads one.
  The loop of \<^verbatim>\<open>stringToHash\<close> is the recursion \<open>stringToHash_loop\<close> over the units that
  are left, with the accumulator \<^verbatim>\<open>hash\<close>.
\<close>

type_synonym js_string = "16 word list"

fun stringToHash_loop :: "int \<Rightarrow> js_string \<Rightarrow> int" where
  "stringToHash_loop hash [] = hash"
| "stringToHash_loop hash (c # cs) =
     (let char = uint c;
          hash1 = js_add (js_sub (js_shl hash 5) hash) char;
          hash2 = js_and hash1 hash1
      in stringToHash_loop hash2 cs)"

definition stringToHash :: "js_string \<Rightarrow> int" where
  "stringToHash str = \<bar>stringToHash_loop 0 str\<bar>"

text \<open>
  An ASCII literal as a JavaScript string.
\<close>

definition js_str :: "string \<Rightarrow> js_string" where
  "js_str s = map (\<lambda>c. word_of_nat (of_char c)) s"

section \<open>RTP and multiplier policy\<close>

text \<open>
  The argument \<^verbatim>\<open>gameId\<close> is a string or a number; \<^verbatim>\<open>typeof gameId === 'string'\<close>
  decides whether it is hashed.
\<close>

datatype game_id = IdString js_string | IdNumber int

definition gameNumericId :: "game_id \<Rightarrow> int" where
  "gameNumericId gameId =
     (case gameId of IdString s \<Rightarrow> stringToHash s | IdNumber n \<Rightarrow> n)"

definition generateRandomRTP :: "game_id \<Rightarrow> local_time \<Rightarrow> int" where
  "generateRandomRTP gameId now =
     (let timeSeed = getTimeSeed now;
          combinedSeed = js_add (js_mul timeSeed 1000) (gameNumericId gameId)
      in getSeededRandomInt combinedSeed rtpRanges_min rtpRanges_max)"

text \<open>
  Reading \<^verbatim>\<open>CONFIG.multipliers[i]\<close> outside the table gives \<^verbatim>\<open>undefined\<close>, and the
  property access on it throws a \<^verbatim>\<open>TypeError\<close>.
\<close>

datatype js_error = TypeError

record multiplier_result =
  mvalue :: string
  mtype :: string
  mtext :: string

definition table_entry :: "int \<Rightarrow> js_error + (string \<times> string)" where
  "table_entry i =
     (if 0 \<le> i \<and> i < int (length multipliers) then Inr (multipliers ! nat i)
      else Inl TypeError)"

definition generateRandomMultiplier :: "game_id \<Rightarrow> local_time \<Rightarrow> js_error + multiplier_result" where
  "generateRandomMultiplier gameId now =
     (let timeSeed = getTimeSeed now;
          multiplierSeed = js_mul (js_add (js_mul timeSeed 1000) (gameNumericId gameId)) 7;
          multiplierIndex = getSeededRandomInt multiplierSeed 0 (int (length multipliers) - 1)
      in case table_entry multiplierIndex of
           Inl e \<Rightarrow> Inl e
         | Inr multiplier \<Rightarrow>
             let textSeed = js_mul (js_add (js_mul timeSeed 1000) (gameNumericId gameId)) 11;
                 isManual = (getSeededRandomInt textSeed 0 1 = 1);
                 text = (if isManual then ''Manual'' else ''Auto'')
             in Inr \<lparr>mvalue = fst multiplier, mtype = snd multiplier, mtext = text\<rparr>)"

definition getRTPColorClass :: "int \<Rightarrow> string" where
  "getRTPColorClass rtp =
     (if 70 \<le> rtp then ''high'' else if 50 \<le> rtp then ''medium'' else ''low'')"

section \<open>The second retained variant\<close>

text \<open>
  \<^verbatim>\<open>src/unnamed/part_000\<close> agrees with \<^verbatim>\<open>src/script.js\<close> byte for byte on lines 1 to 98
  (\<^verbatim>\<open>CONFIG\<close>, \<^verbatim>\<open>getTimeSeed\<close>, \<^verbatim>\<open>seededRandom\<close>, \<^verbatim>\<open>getSeededRandomInt\<close>, \<^verbatim>\<open>stringToHash\<close>
  and \<^verbatim>\<open>generateRandomRTP\<close>), so its helper functions are the definitions above.  Its
  \<^verbatim>\<open>generateRandomRTP\<close> and \<^verbatim>\<open>generateRandomMultiplier\<close> are embedded on their own; the
  latter returns an object without the \<^verbatim>\<open>text\<close> property.
\<close>

definition generateRandomRTP_part000 :: "game_id \<Rightarrow> local_time \<Rightarrow> int" where
  "generateRandomRTP_part000 gameId now =
     (let timeSeed = getTimeSeed now;
          combinedSeed = js_add (js_mul timeSeed 1000) (gameNumericId gameId)
      in getSeededRandomInt combinedSeed rtpRanges_min rtpRanges_max)"

record multiplier_part000 =
  pvalue :: string
  ptype :: string

definition generateRandomMultiplier_part000 ::
  "game_id \<Rightarrow> local_time \<Rightarrow> js_error + multiplier_part000" where
  "generateRandomMultiplier_part000 gameId now =
     (let timeSeed = getTimeSeed now;
          multiplierSeed = js_mul (js_add (js_mul timeSeed 1000) (gameNumericId gameId)) 7;
          multiplierIndex = getSeededRandomInt multiplierSeed 0 (int (length multipliers) - 1)
      in case table_entry multiplierIndex of
           Inl e \<Rightarrow> Inl e
         | Inr multiplier \<Rightarrow> Inr \<lparr>pvalue = fst multiplier, ptype = snd multiplier\<rparr>)"

text \<open>
  The projection of a result of \<^verbatim>\<open>src/script.js\<close> to the two properties that both
  variants return.
\<close>

definition drop_text :: "multiplier_result \<Rightarrow> multiplier_part000" where
  "drop_text m = \<lparr>pvalue = mvalue m, ptype = mtype m\<rparr>"

section \<open>Calendar order and the statements of the specification\<close>

text \<open>
  Two timestamps lie in the same local calendar minute when they agree on every field
  down to the minute; \<open>earlier\<close> is the order of local calendar time, field by field.
\<close>

definition same_minute :: "local_time \<Rightarrow> local_time \<Rightarrow> bool" where
  "same_minute a b \<longleftrightarrow>
     FullYear a = FullYear b \<and> Month a = Month b \<and> Date a = Date b \<and>
     Hours a = Hours b \<and> Minutes a = Minutes b"

definition earlier :: "local_time \<Rightarrow> local_time \<Rightarrow> bool" where
  "earlier a b \<longleftrightarrow>
     FullYear a < FullYear b \<or> (FullYear a = FullYear b \<and>
     (Month a < Month b \<or> (Month a = Month b \<and>
     (Date a < Date b \<or> (Date a = Date b \<and>
     (Hours a < Hours b \<or> (Hours a = Hours b \<and>
     (Minutes a < Minutes b \<or> (Minutes a = Minutes b \<and>
     (Seconds a < Seconds b \<or> (Seconds a = Seconds b \<and>
      Milliseconds a < Milliseconds b)))))))))))"

text \<open>
  Truncation of an integer to a 32-bit two's-complement value, in plain arithmetic.
\<close>

definition truncate32 :: "int \<Rightarrow> int" where
  "truncate32 x = (x + 2147483648) mod 4294967296 - 2147483648"

text \<open>
  The hash as the specification words it: the recurrence
  \<^verbatim>\<open>hash = hash*31 - hash + charCode\<close>, truncated to 32 bits at each step, and the
  absolute value at the end.
\<close>

definition hashId_spec :: "js_string \<Rightarrow> int" where
  "hashId_spec str = \<bar>foldl (\<lambda>hash c. truncate32 (hash * 31 - hash + uint c)) 0 str\<bar>"

text \<open>
  The four documented mulberry32 steps on a 32-bit seed, in 32-bit arithmetic throughout.
\<close>

definition mulberry32_steps :: "int32 \<Rightarrow> real" where
  "mulberry32_steps seed0 =
     (let seed = seed0 + 0x6D2B79F5;
          t = (seed XOR drop_bit 15 seed) * (seed OR 1);
          t' = t XOR (t + (t XOR drop_bit 7 t) * (t OR 61))
      in real_of_int (uint (t' XOR drop_bit 14 t')) / 4294967296)"

text \<open>
  The end-to-end scenario of the specification: the game
  \<^verbatim>\<open>pragmatic/gates-of-olympus\<close> at 2024-01-15 10:30:00, and two later timestamps.
\<close>

definition scenario_game :: js_string where
  "scenario_game = js_str ''pragmatic/gates-of-olympus''"

definition scenario_time :: local_time where
  "scenario_time = \<lparr>FullYear = 2024, Month = 0, Date = 15, Hours = 10, Minutes = 30,
     Seconds = 0, Milliseconds = 0\<rparr>"

definition scenario_time_45s :: local_time where
  "scenario_time_45s = \<lparr>FullYear = 2024, Month = 0, Date = 15, Hours = 10, Minutes = 30,
     Seconds = 45, Milliseconds = 0\<rparr>"

definition scenario_time_next :: local_time where
  "scenario_time_next = \<lparr>FullYear = 2024, Month = 0, Date = 15, Hours = 10, Minutes = 31,
     Seconds = 0, Milliseconds = 0\<rparr>"

text \<open>
  The last minute of January 2024 and the first minute of February 2024.
\<close>

definition jan31_2359 :: local_time where
  "jan31_2359 = \<lparr>FullYear = 2024, Month = 0, Date = 31, Hours = 23, Minutes = 59,
     Seconds = 0, Milliseconds = 0\<rparr>"

definition feb01_0000 :: local_time where
  "feb01_0000 = \<lparr>FullYear = 2024, Month = 1, Date = 1, Hours = 0, Minutes = 0,
     Seconds = 0, Milliseconds = 0\<rparr>"

text \<open>
  The seed is \<open>43800\<close> times the running month number plus the minute within the month;
  since \<open>43800\<close> minutes are less than 31 days, the end of a 31st day overlaps the start
  of the following month: \<open>month_overlap t1 t2\<close> holds when \<open>t2\<close> lies in the month right
  after that of \<open>t1\<close> and is at least \<open>43800\<close> minutes behind \<open>t1\<close> within its month.
\<close>

definition month_index :: "local_time \<Rightarrow> int" where
  "month_index now = FullYear now * 12 + Month now"

definition minute_of_month :: "local_time \<Rightarrow> int" where
  "minute_of_month now = Date now * 1440 + Hours now * 60 + Minutes now"

definition month_overlap :: "local_time \<Rightarrow> local_time \<Rightarrow> bool" where
  "month_overlap t1 t2 \<longleftrightarrow>
     month_index t2 = month_index t1 + 1 \<and>
     minute_of_month t2 + 43800 \<le> minute_of_month t1"

text \<open>
  New Year's Eve 2023 at 09:00, New Year's Day 2024 at 00:00, and a day in June 2025.
\<close>

definition dec31_0900 :: local_time where
  "dec31_0900 = \<lparr>FullYear = 2023, Month = 11, Date = 31, Hours = 9, Minutes = 0,
     Seconds = 0, Milliseconds = 0\<rparr>"

definition jan01_0000 :: local_time where
  "jan01_0000 = \<lparr>FullYear = 2024, Month = 0, Date = 1, Hours = 0, Minutes = 0,
     Seconds = 0, Milliseconds = 0\<rparr>"

section \<open>Exactness of the arithmetic on small values\<close>

lemma round_double_exact: "\<bar>n\<bar> < 2 ^ 53 \<Longrightarrow> round_double n = n"
proof -
  assume "\<bar>n\<bar> < 2 ^ 53"
  then have "bitlen \<bar>n\<bar> \<le> 53"
    using bitlen_le_iff_power [of "\<bar>n\<bar>" 53] by simp
  then show ?thesis
    by (simp add: round_double_def Let_def)
qed

lemma js_add_exact:
  "- 9007199254740992 < a + b \<Longrightarrow> a + b < 9007199254740992 \<Longrightarrow> js_add a b = a + b"
  by (simp add: js_add_def round_double_exact abs_less_iff)

lemma js_sub_exact:
  "- 9007199254740992 < a - b \<Longrightarrow> a - b < 9007199254740992 \<Longrightarrow> js_sub a b = a - b"
  by (simp add: js_sub_def round_double_exact abs_less_iff)

lemma js_mul_exact:
  "- 9007199254740992 < a * b \<Longrightarrow> a * b < 9007199254740992 \<Longrightarrow> js_mul a b = a * b"
  by (simp add: js_mul_def round_double_exact abs_less_iff)

lemma ToInt32_sint: "ToInt32 (sint (w :: int32)) = w"
  by (simp add: ToInt32_def)

lemma ToInt32_uint: "ToInt32 (uint (w :: int32)) = w"
  by (simp add: ToInt32_def)

lemma sint32_bounds: "- 2147483648 \<le> sint (w :: int32) \<and> sint w < 2147483648"
  using sint_ge [of w] sint_lt [of w] by simp

lemma uint32_bounds: "0 \<le> uint (w :: int32) \<and> uint w < 4294967296"
  using uint_lt2p [of w] by simp

lemma getTimeSeed_exact:
  assumes "valid_time now"
  shows "getTimeSeed now =
    FullYear now * 525600 + Month now * 43800 + Date now * 1440 + Hours now * 60 + Minutes now"
proof -
  from assms have b:
    "- 271821 \<le> FullYear now" "FullYear now \<le> 275760" "0 \<le> Month now" "Month now \<le> 11"
    "1 \<le> Date now" "Date now \<le> 31" "0 \<le> Hours now" "Hours now \<le> 23"
    "0 \<le> Minutes now" "Minutes now \<le> 59"
    by (simp_all add: valid_time_def)
  have y: "js_mul (FullYear now) 525600 = FullYear now * 525600"
    using b by (intro js_mul_exact) simp_all
  have m: "js_mul (Month now) 43800 = Month now * 43800"
    using b by (intro js_mul_exact) simp_all
  have d: "js_mul (Date now) 1440 = Date now * 1440"
    using b by (intro js_mul_exact) simp_all
  have h: "js_mul (Hours now) 60 = Hours now * 60"
    using b by (intro js_mul_exact) simp_all
  have s1: "js_add (FullYear now * 525600) (Month now * 43800)
      = FullYear now * 525600 + Month now * 43800"
    using b by (intro js_add_exact) simp_all
  have s2: "js_add (FullYear now * 525600 + Month now * 43800) (Date now * 1440)
      = FullYear now * 525600 + Month now * 43800 + Date now * 1440"
    using b by (intro js_add_exact) simp_all
  have s3: "js_add (FullYear now * 525600 + Month now * 43800 + Date now * 1440) (Hours now * 60)
      = FullYear now * 525600 + Month now * 43800 + Date now * 1440 + Hours now * 60"
    using b by (intro js_add_exact) simp_all
  have s4: "js_add (FullYear now * 525600 + Month now * 43800 + Date now * 1440 + Hours now * 60)
        (Minutes now)
      = FullYear now * 525600 + Month now * 43800 + Date now * 1440 + Hours now * 60 + Minutes now"
    using b by (intro js_add_exact) simp_all
  show ?thesis
    by (simp add: getTimeSeed_def y m d h s1 s2 s3 s4)
qed

lemma getTimeSeed_bounds:
  assumes "valid_time now"
  shows "- 142869117600 \<le> getTimeSeed now" "getTimeSeed now \<le> 144939983879"
  using assms by (simp_all add: getTimeSeed_exact) (simp_all add: valid_time_def)

section \<open>The hash in 32-bit arithmetic\<close>

lemma truncate32_sint: "truncate32 x = sint (word_of_int x :: int32)"
  unfolding truncate32_def
  by (simp add: sint_sbintrunc' signed_take_bit_eq_take_bit_shift take_bit_eq_mod)

lemma stringToHash_step:
  fixes w :: int32
  shows "js_and (js_add (js_sub (js_shl (sint w) 5) (sint w)) (uint c))
                (js_add (js_sub (js_shl (sint w) 5) (sint w)) (uint c))
         = truncate32 (sint w * 32 - sint w + uint (c :: 16 word))"
proof -
  define s where "s = sint (push_bit 5 w)"
  have shl: "js_shl (sint w) 5 = s"
    by (simp add: js_shl_def ToInt32_sint s_def)
  have bs: "- 2147483648 \<le> s" "s < 2147483648"
    using sint32_bounds [of "push_bit 5 w"] by (simp_all add: s_def)
  have bw: "- 2147483648 \<le> sint w" "sint w < 2147483648"
    using sint32_bounds [of w] by simp_all
  have bc: "0 \<le> uint c" "uint c < 65536"
    using uint_lt2p [of c] by simp_all
  have sub: "js_sub s (sint w) = s - sint w"
    using bs bw by (intro js_sub_exact) linarith+
  have add: "js_add (s - sint w) (uint c) = s - sint w + uint c"
    using bs bw bc by (intro js_add_exact) linarith+
  have tw: "(word_of_int (s - sint w + uint c) :: int32)
            = word_of_int (sint w * 32 - sint w + uint c)"
    by (simp add: s_def wi_hom_syms push_bit_eq_mult)
  show ?thesis
    unfolding shl sub add js_and_def ToInt32_def truncate32_sint tw by simp
qed

lemma stringToHash_loop_fold:
  "stringToHash_loop (sint (w :: int32)) str
   = foldl (\<lambda>hash c. truncate32 (hash * 32 - hash + uint c)) (sint w) str"
proof (induction str arbitrary: w)
  case Nil
  show ?case by simp
next
  case (Cons c cs)
  let ?h = "truncate32 (sint w * 32 - sint w + uint c)"
  have "?h = sint (word_of_int (sint w * 32 - sint w + uint c) :: int32)"
    by (rule truncate32_sint)
  with Cons.IH [of "word_of_int (sint w * 32 - sint w + uint c)"]
  have "stringToHash_loop ?h cs
        = foldl (\<lambda>hash c. truncate32 (hash * 32 - hash + uint c)) ?h cs"
    by simp
  then show ?case
    by (simp add: Let_def stringToHash_step)
qed

lemma stringToHash_fold:
  "stringToHash str = \<bar>foldl (\<lambda>hash c. truncate32 (hash * 32 - hash + uint c)) 0 str\<bar>"
  using stringToHash_loop_fold [of 0 str] by (simp add: stringToHash_def)

lemma stringToHash_loop_range:
  "- 2147483648 \<le> stringToHash_loop (sint (w :: int32)) str \<and>
   stringToHash_loop (sint w) str < 2147483648"
proof (induction str arbitrary: w)
  case Nil
  show ?case using sint32_bounds [of w] by simp
next
  case (Cons c cs)
  have "truncate32 (sint w * 32 - sint w + uint c)
        = sint (word_of_int (sint w * 32 - sint w + uint c) :: int32)"
    by (rule truncate32_sint)
  with Cons.IH [of "word_of_int (sint w * 32 - sint w + uint c)"]
  show ?case
    by (simp add: Let_def stringToHash_step)
qed

lemma stringToHash_range: "0 \<le> stringToHash str \<and> stringToHash str \<le> 2147483648"
  using stringToHash_loop_range [of 0 str] unfolding stringToHash_def by simp linarith

section \<open>The generator in 32-bit arithmetic\<close>

lemma js_or_zero: "js_or a 0 = truncate32 a"
  by (simp add: js_or_def ToInt32_def truncate32_sint)

lemma truncate32_abs_range: "0 \<le> \<bar>truncate32 a\<bar> \<and> \<bar>truncate32 a\<bar> \<le> 2147483648"
  using sint32_bounds [of "word_of_int a"] unfolding truncate32_sint by linarith

lemma seededRandom_words:
  "seededRandom seed = mulberry32_steps (word_of_int \<bar>truncate32 seed\<bar>)"
proof -
  define s where "s = \<bar>truncate32 seed\<bar>"
  define w :: int32 where "w = word_of_int s + 0x6D2B79F5"
  define w2 where "w2 = (w XOR drop_bit 15 w) * (w OR 1)"
  define x where "x = (w2 XOR drop_bit 7 w2) * (w2 OR 61)"
  have bs: "0 \<le> s" "s \<le> 2147483648"
    using truncate32_abs_range [of seed] by (simp_all add: s_def)
  have seed2: "js_add s 0x6D2B79F5 = s + 0x6D2B79F5"
    using bs by (intro js_add_exact) linarith+
  have tw: "ToInt32 (s + 0x6D2B79F5) = w"
    by (simp add: ToInt32_def w_def wi_hom_syms)
  have t2: "Math_imul (js_xor (s + 0x6D2B79F5) (js_ushr (s + 0x6D2B79F5) 15))
              (js_or (s + 0x6D2B79F5) 1) = sint w2"
    unfolding Math_imul_def js_xor_def js_ushr_def js_or_def tw ToInt32_sint ToInt32_uint w2_def
    by (simp add: ToInt32_def)
  have im: "Math_imul (js_xor (sint w2) (js_ushr (sint w2) 7)) (js_or (sint w2) 61) = sint x"
    unfolding Math_imul_def js_xor_def js_ushr_def js_or_def ToInt32_sint ToInt32_uint x_def
    by (simp add: ToInt32_def)
  have add: "js_add (sint w2) (sint x) = sint w2 + sint x"
    using sint32_bounds [of w2] sint32_bounds [of x] by (intro js_add_exact) linarith+
  have tadd: "ToInt32 (sint w2 + sint x) = w2 + x"
    by (simp add: ToInt32_def wi_hom_syms)
  have t3: "js_xor (sint w2) (sint w2 + sint x) = sint (w2 XOR (w2 + x))"
    unfolding js_xor_def tadd ToInt32_sint by simp
  have out: "js_ushr (js_xor (sint (w2 XOR (w2 + x))) (js_ushr (sint (w2 XOR (w2 + x))) 14)) 0
             = uint ((w2 XOR (w2 + x)) XOR drop_bit 14 (w2 XOR (w2 + x)))"
    unfolding js_xor_def js_ushr_def ToInt32_sint ToInt32_uint by simp
  have "seededRandom seed
        = real_of_int (uint ((w2 XOR (w2 + x)) XOR drop_bit 14 (w2 XOR (w2 + x)))) / 4294967296"
    unfolding seededRandom_def Let_def js_or_zero
    unfolding s_def [symmetric] seed2 t2 im add t3 out by (rule refl)
  also have "\<dots> = mulberry32_steps (word_of_int s)"
    by (simp add: mulberry32_steps_def Let_def w_def w2_def x_def)
  finally show ?thesis by (simp add: s_def)
qed

lemma unit_fraction_range:
  "0 \<le> (x :: real) \<Longrightarrow> x < 4294967296 \<Longrightarrow> 0 \<le> x / 4294967296 \<and> x / 4294967296 < 1"
  by simp

lemma mulberry32_steps_range: "0 \<le> mulberry32_steps w \<and> mulberry32_steps w < 1"
proof -
  have r: "0 \<le> real_of_int (uint v) / 4294967296 \<and> real_of_int (uint v) / 4294967296 < 1"
    for v :: int32
  proof (rule unit_fraction_range)
    from uint32_bounds [of v] have "0 \<le> uint v" and "uint v < 4294967296"
      by blast+
    then show "0 \<le> real_of_int (uint v)" and "real_of_int (uint v) < 4294967296"
      by (simp_all only: of_int_0_le_iff of_int_less_numeral_iff)
  qed
  show ?thesis
    unfolding mulberry32_steps_def Let_def by (rule r)
qed

section \<open>Seed composition and range mapping\<close>

lemma combinedSeed_exact:
  assumes "valid_time now" and "0 \<le> h" and "h \<le> 2147483648"
  shows "js_add (js_mul (getTimeSeed now) 1000) h = getTimeSeed now * 1000 + h"
proof -
  note b = getTimeSeed_bounds [OF assms(1)]
  have m: "js_mul (getTimeSeed now) 1000 = getTimeSeed now * 1000"
    using b by (intro js_mul_exact) linarith+
  have "js_add (getTimeSeed now * 1000) h = getTimeSeed now * 1000 + h"
    using b assms(2,3) by (intro js_add_exact) linarith+
  with m show ?thesis by simp
qed

lemma combinedSeed_bounds:
  assumes "valid_time now" and "0 \<le> h" and "h \<le> 2147483648"
  shows "- 142869117600000 \<le> getTimeSeed now * 1000 + h"
    and "getTimeSeed now * 1000 + h \<le> 144942131362648"
  using getTimeSeed_bounds [OF assms(1)] assms(2,3) by linarith+

lemma scaledSeed_exact:
  assumes "- 142869117600000 \<le> s" and "s \<le> 144942131362648" and "k = 7 \<or> k = 11"
  shows "js_mul s k = s * k"
  using assms by (intro js_mul_exact) auto

lemma multiplierSeed_exact:
  assumes "valid_time now" and "0 \<le> h" and "h \<le> 2147483648"
  shows "js_mul (js_add (js_mul (getTimeSeed now) 1000) h) 7 = (getTimeSeed now * 1000 + h) * 7"
  unfolding combinedSeed_exact [OF assms]
  using combinedSeed_bounds [OF assms] by (intro scaledSeed_exact) simp_all

lemma textSeed_exact:
  assumes "valid_time now" and "0 \<le> h" and "h \<le> 2147483648"
  shows "js_mul (js_add (js_mul (getTimeSeed now) 1000) h) 11 = (getTimeSeed now * 1000 + h) * 11"
  unfolding combinedSeed_exact [OF assms]
  using combinedSeed_bounds [OF assms] by (intro scaledSeed_exact) simp_all

lemma seededRandom_range: "0 \<le> seededRandom seed \<and> seededRandom seed < 1"
  unfolding seededRandom_words by (rule mulberry32_steps_range)

lemma floor_scaled_range:
  assumes "0 \<le> (r :: real)" and "r < 1" and "1 \<le> n"
  shows "0 \<le> \<lfloor>r * real_of_int n\<rfloor> \<and> \<lfloor>r * real_of_int n\<rfloor> \<le> n - 1"
proof
  from assms show "0 \<le> \<lfloor>r * real_of_int n\<rfloor>"
    by simp
  from assms have "r * real_of_int n < 1 * real_of_int n"
    by (intro mult_strict_right_mono) simp_all
  then have "\<lfloor>r * real_of_int n\<rfloor> < n"
    by (simp add: floor_less_iff)
  then show "\<lfloor>r * real_of_int n\<rfloor> \<le> n - 1"
    by simp
qed

lemma getSeededRandomInt_range:
  assumes "min_v \<le> max_v"
  shows "min_v \<le> getSeededRandomInt seed min_v max_v \<and>
         getSeededRandomInt seed min_v max_v \<le> max_v"
proof -
  have "1 \<le> max_v - min_v + 1"
    using assms by simp
  from floor_scaled_range [OF conjunct1 [OF seededRandom_range]
      conjunct2 [OF seededRandom_range] this, of "lcgStep seed"]
  show ?thesis
    by (simp add: getSeededRandomInt_def Let_def)
qed

lemma multiplierIndex_range:
  "0 \<le> getSeededRandomInt seed 0 (int (length multipliers) - 1) \<and>
   getSeededRandomInt seed 0 (int (length multipliers) - 1) < int (length multipliers)"
proof -
  have "(0::int) \<le> int (length multipliers) - 1"
    by (simp add: multipliers_def)
  from getSeededRandomInt_range [OF this, of seed] show ?thesis
    by simp
qed

lemma same_minute_getTimeSeed: "same_minute a b \<Longrightarrow> getTimeSeed a = getTimeSeed b"
  by (simp add: same_minute_def getTimeSeed_def)

section \<open>The seed as month number and minute of the month\<close>

lemma getTimeSeed_month_form:
  assumes "valid_time now"
  shows "getTimeSeed now = month_index now * 43800 + minute_of_month now"
  by (simp add: getTimeSeed_exact [OF assms] month_index_def minute_of_month_def)

lemma minute_of_month_bounds:
  assumes "valid_time now"
  shows "1440 \<le> minute_of_month now" and "minute_of_month now \<le> 46079"
  using assms by (simp_all add: valid_time_def minute_of_month_def)

lemma earlier_month_index:
  assumes "valid_time t1" and "valid_time t2" and "earlier t1 t2"
  shows "month_index t1 \<le> month_index t2"
proof -
  from assms(1,2) have b: "0 \<le> Month t1" "Month t1 \<le> 11" "0 \<le> Month t2" "Month t2 \<le> 11"
    by (simp_all add: valid_time_def)
  from assms(3) consider "FullYear t1 < FullYear t2"
    | "FullYear t1 = FullYear t2" "Month t1 \<le> Month t2"
    unfolding earlier_def by fastforce
  then show ?thesis
  proof cases
    case 1
    with b show ?thesis unfolding month_index_def by linarith
  next
    case 2
    then show ?thesis unfolding month_index_def by linarith
  qed
qed

lemma same_month_index:
  assumes "valid_time t1" and "valid_time t2" and "month_index t1 = month_index t2"
  shows "FullYear t1 = FullYear t2 \<and> Month t1 = Month t2"
proof -
  from assms(1,2) have b: "0 \<le> Month t1" "Month t1 \<le> 11" "0 \<le> Month t2" "Month t2 \<le> 11"
    by (simp_all add: valid_time_def)
  from assms(3) have e: "FullYear t1 * 12 + Month t1 = FullYear t2 * 12 + Month t2"
    by (simp add: month_index_def)
  with b have "FullYear t1 = FullYear t2" by linarith
  with e show ?thesis by simp
qed

lemma earlier_same_month:
  assumes "earlier t1 t2" and "FullYear t1 = FullYear t2" and "Month t1 = Month t2"
    and "valid_time t1" and "valid_time t2"
  shows "minute_of_month t1 \<le> minute_of_month t2 \<and>
         (\<not> same_minute t1 t2 \<longrightarrow> minute_of_month t1 < minute_of_month t2)"
proof -
  from assms(4) have b1: "0 \<le> Hours t1" "Hours t1 \<le> 23" "0 \<le> Minutes t1" "Minutes t1 \<le> 59"
    by (simp_all add: valid_time_def)
  from assms(5) have b2: "0 \<le> Hours t2" "Hours t2 \<le> 23" "0 \<le> Minutes t2" "Minutes t2 \<le> 59"
    by (simp_all add: valid_time_def)
  from assms(1,2,3) consider
      (day) "Date t1 < Date t2"
    | (hour) "Date t1 = Date t2" "Hours t1 < Hours t2"
    | (minute) "Date t1 = Date t2" "Hours t1 = Hours t2" "Minutes t1 < Minutes t2"
    | (same) "same_minute t1 t2"
    unfolding earlier_def same_minute_def by fastforce
  then show ?thesis
  proof cases
    case day
    with b1 b2 have "minute_of_month t1 < minute_of_month t2"
      unfolding minute_of_month_def by linarith
    then show ?thesis by simp
  next
    case hour
    with b1 b2 have "minute_of_month t1 < minute_of_month t2"
      unfolding minute_of_month_def by linarith
    then show ?thesis by simp
  next
    case minute
    then have "minute_of_month t1 < minute_of_month t2"
      unfolding minute_of_month_def by linarith
    then show ?thesis by simp
  next
    case same
    then show ?thesis
      by (simp add: same_minute_def minute_of_month_def)
  qed
qed

text \<open>
  The exclusion is exact: on an overlapping pair the later timestamp never has the larger
  seed, although it lies in a later minute.
\<close>

lemma month_overlap_not_increasing:
  assumes "valid_time t1" and "valid_time t2" and "month_overlap t1 t2"
  shows "getTimeSeed t2 \<le> getTimeSeed t1 \<and> \<not> same_minute t1 t2"
proof -
  from assms(3) have i: "month_index t2 = month_index t1 + 1"
    and m: "minute_of_month t2 + 43800 \<le> minute_of_month t1"
    by (simp_all add: month_overlap_def)
  from i m have "getTimeSeed t2 \<le> getTimeSeed t1"
    unfolding getTimeSeed_month_form [OF assms(1)] getTimeSeed_month_form [OF assms(2)]
    by linarith
  moreover have "\<not> same_minute t1 t2"
  proof
    assume "same_minute t1 t2"
    then have "month_index t1 = month_index t2"
      by (simp add: same_minute_def month_index_def)
    with i show False by simp
  qed
  ultimately show ?thesis by simp
qed

section \<open>Claims\<close>

text \<open>
  C1.  Determinism within a minute: for a game identifier string and two timestamps in the
  same local calendar minute, \<^verbatim>\<open>generateRandomRTP\<close> returns the same integer and
  \<^verbatim>\<open>generateRandomMultiplier\<close> the same object.
\<close>

theorem generate_same_minute:
  assumes "same_minute t1 t2"
  shows "generateRandomRTP (IdString g) t1 = generateRandomRTP (IdString g) t2 \<and>
         generateRandomMultiplier (IdString g) t1 = generateRandomMultiplier (IdString g) t2"
proof -
  from assms have "getTimeSeed t1 = getTimeSeed t2"
    by (rule same_minute_getTimeSeed)
  then show ?thesis
    by (simp add: generateRandomRTP_def generateRandomMultiplier_def)
qed

theorem generate_same_minute_witness:
  "same_minute scenario_time scenario_time_45s \<and>
   generateRandomRTP (IdString scenario_game) scenario_time
     = generateRandomRTP (IdString scenario_game) scenario_time_45s \<and>
   generateRandomMultiplier (IdString scenario_game) scenario_time
     = generateRandomMultiplier (IdString scenario_game) scenario_time_45s"
proof -
  have h: "same_minute scenario_time scenario_time_45s"
    by (simp add: same_minute_def scenario_time_def scenario_time_45s_def)
  show ?thesis
    using h generate_same_minute [OF h, of scenario_game] by simp
qed

text \<open>
  C2.  For a game identifier string and a valid timestamp, \<^verbatim>\<open>generateRandomRTP\<close> is
  \<^verbatim>\<open>getSeededRandomInt\<close> at the seed \<open>epochMinute * 1000 + hash\<close>, formed without any
  rounding, with the bounds 30 and 99 of \<^verbatim>\<open>CONFIG.rtpRanges\<close>; and
  \<^verbatim>\<open>getSeededRandomInt\<close> is the two-stage helper: the linear-congruential step, then
  \<^verbatim>\<open>seededRandom\<close>, then the mapping to the range.
\<close>

theorem generateRandomRTP_seed:
  assumes "valid_time now"
  shows "generateRandomRTP (IdString g) now
           = getSeededRandomInt (getTimeSeed now * 1000 + stringToHash g)
               rtpRanges_min rtpRanges_max \<and>
         getSeededRandomInt (getTimeSeed now * 1000 + stringToHash g) rtpRanges_min rtpRanges_max
           = \<lfloor>seededRandom (lcgStep (getTimeSeed now * 1000 + stringToHash g)) * 70\<rfloor> + 30"
proof -
  have "js_add (js_mul (getTimeSeed now) 1000) (stringToHash g)
        = getTimeSeed now * 1000 + stringToHash g"
    using stringToHash_range [of g] by (intro combinedSeed_exact [OF assms]) simp_all
  then show ?thesis
    by (simp add: generateRandomRTP_def gameNumericId_def getSeededRandomInt_def
        rtpRanges_min_def rtpRanges_max_def)
qed

theorem generateRandomRTP_seed_witness:
  "valid_time scenario_time \<and>
   generateRandomRTP (IdString scenario_game) scenario_time
     = getSeededRandomInt (getTimeSeed scenario_time * 1000 + stringToHash scenario_game)
         rtpRanges_min rtpRanges_max"
proof -
  have h: "valid_time scenario_time"
    by (simp add: valid_time_def scenario_time_def)
  show ?thesis
    using h generateRandomRTP_seed [OF h, of scenario_game] by simp
qed

text \<open>
  C3 (as amended).  \<^verbatim>\<open>seededRandom\<close> first replaces the seed by the absolute value of its
  32-bit signed truncation (\<^verbatim>\<open>Math.abs(seed | 0)\<close>) and then applies exactly the four
  documented mulberry32 steps in 32-bit arithmetic; the result lies in \<open>[0, 1)\<close>.  For a
  seed whose 32-bit signed truncation is not negative, this is the four steps applied to
  the 32-bit seed itself.
\<close>

theorem seededRandom_mulberry32:
  "seededRandom seed = mulberry32_steps (word_of_int \<bar>truncate32 seed\<bar>) \<and>
   0 \<le> seededRandom seed \<and> seededRandom seed < 1 \<and>
   (0 \<le> truncate32 seed \<longrightarrow> seededRandom seed = mulberry32_steps (word_of_int seed))"
proof -
  have "(word_of_int (truncate32 seed) :: int32) = word_of_int seed"
    by (simp add: truncate32_sint)
  then have "0 \<le> truncate32 seed \<longrightarrow> seededRandom seed = mulberry32_steps (word_of_int seed)"
    by (simp add: seededRandom_words)
  with seededRandom_words [of seed] seededRandom_range [of seed] show ?thesis
    by blast
qed

theorem seededRandom_mulberry32_witness:
  "0 \<le> truncate32 12345 \<and> seededRandom 12345 = mulberry32_steps (word_of_int 12345)"
proof -
  have h: "0 \<le> truncate32 12345"
    by (simp add: truncate32_def)
  show ?thesis
    using h seededRandom_mulberry32 [of 12345] by blast
qed

text \<open>
  C3 as stated fails: at the seed \<open>-1\<close> the four steps applied to the 32-bit seed itself give
  another value than \<^verbatim>\<open>seededRandom\<close>, which works on \<open>1\<close>.
\<close>

theorem seededRandom_abs_counterexample:
  "seededRandom (- 1) \<noteq> mulberry32_steps (word_of_int (- 1))"
proof -
  have "seededRandom (- 1) = 2693262067 / 4294967296"
    by (simp add: seededRandom_words truncate32_def mulberry32_steps_def Let_def)
  moreover have "mulberry32_steps (word_of_int (- 1)) = 3850105811 / 4294967296"
    by (simp add: mulberry32_steps_def Let_def)
  ultimately show ?thesis by simp
qed

text \<open>
  C4 (as amended).  \<^verbatim>\<open>stringToHash\<close> walks the code units in order with the recurrence
  \<^verbatim>\<open>hash = hash*31 + charCode\<close> (the source's \<^verbatim>\<open>(hash << 5) - hash + char\<close>), truncated
  to a 32-bit two's-complement integer at each step, and returns the absolute value of the
  accumulator.
\<close>

theorem stringToHash_recurrence:
  "stringToHash str = \<bar>foldl (\<lambda>hash c. truncate32 (hash * 31 + uint c)) 0 str\<bar>"
proof -
  have "(\<lambda>hash c. truncate32 (hash * 32 - hash + uint (c :: 16 word)))
        = (\<lambda>hash c. truncate32 (hash * 31 + uint c))"
    by (intro ext arg_cong [where f = truncate32]) simp
  then show ?thesis
    by (simp add: stringToHash_fold)
qed

text \<open>
  C4 as stated fails: on the two-character string \<^verbatim>\<open>ab\<close> the recurrence
  \<^verbatim>\<open>hash*31 - hash + charCode\<close> gives 3008, the source 3105.
\<close>

theorem stringToHash_spec_counterexample:
  "stringToHash (js_str ''ab'') \<noteq> hashId_spec (js_str ''ab'')"
proof -
  have "stringToHash (js_str ''ab'') = 3105"
    by (simp add: stringToHash_fold js_str_def truncate32_def)
  moreover have "hashId_spec (js_str ''ab'') = 3008"
    by (simp add: hashId_spec_def js_str_def truncate32_def)
  ultimately show ?thesis by simp
qed

text \<open>
  C5 (as amended).  The pre-scramble step computes
  \<^verbatim>\<open>(seed * 9301 + 49297) % 233280\<close> in double precision: the product and the sum are each
  rounded to the nearest double.  For a non-negative seed with
  \<open>seed * 9301 + 49297 < 2^53\<close> nothing is rounded and the step is the exact integer value
  \<open>(seed * 9301 + 49297) mod 233280\<close>.
\<close>

theorem lcgStep_exact_below_2_53:
  "lcgStep seed = js_rem (round_double (round_double (seed * 9301) + 49297)) 233280 \<and>
   (0 \<le> seed \<and> seed * 9301 + 49297 < 9007199254740992
      \<longrightarrow> lcgStep seed = (seed * 9301 + 49297) mod 233280)"
proof (intro conjI impI)
  show "lcgStep seed = js_rem (round_double (round_double (seed * 9301) + 49297)) 233280"
    by (simp add: lcgStep_def js_add_def js_mul_def)
next
  assume b: "0 \<le> seed \<and> seed * 9301 + 49297 < 9007199254740992"
  have m: "js_mul seed 9301 = seed * 9301"
    using b by (intro js_mul_exact) linarith+
  have a: "js_add (seed * 9301) 49297 = seed * 9301 + 49297"
    using b by (intro js_add_exact) linarith+
  have "0 < seed * 9301 + 49297"
    using b by linarith
  then have "js_rem (seed * 9301 + 49297) 233280 = (seed * 9301 + 49297) mod 233280"
    by (simp add: js_rem_def)
  then show "lcgStep seed = (seed * 9301 + 49297) mod 233280"
    by (simp add: lcgStep_def m a)
qed

theorem lcgStep_exact_below_2_53_witness:
  "(0::int) \<le> 12345 \<and> (12345::int) * 9301 + 49297 < 9007199254740992 \<and>
   lcgStep 12345 = (12345 * 9301 + 49297) mod 233280"
  using lcgStep_exact_below_2_53 [of 12345] by simp

text \<open>
  C5 as stated fails: in the scenario of the specification \<^verbatim>\<open>generateRandomRTP\<close> passes the
  seed 1063929634361; its product with 9301 exceeds \<open>2^53\<close>, and the step yields 194236
  where the exact integer value is 194238.
\<close>

theorem lcgStep_rounding_counterexample:
  "js_add (js_mul (getTimeSeed scenario_time) 1000) (gameNumericId (IdString scenario_game))
     = 1063929634361 \<and>
   lcgStep 1063929634361 = 194236 \<and>
   (1063929634361 * 9301 + 49297) mod 233280 = (194238 :: int)"
proof -
  have t: "getTimeSeed scenario_time = 1063836630"
    by (simp add: getTimeSeed_exact valid_time_def scenario_time_def)
  have h: "stringToHash scenario_game = 93004361"
    by (simp add: stringToHash_fold scenario_game_def js_str_def truncate32_def)
  have s: "js_add (js_mul 1063836630 1000) 93004361 = 1063929634361"
    by (simp add: js_add_exact js_mul_exact)
  have l: "lcgStep 1063929634361 = 194236"
    by (simp add: lcgStep_def js_add_def js_mul_def js_rem_def round_double_def Let_def
        compute_bitlen)
  show ?thesis
    by (simp add: gameNumericId_def t h s l)
qed

text \<open>
  C6.  For a game identifier string and a valid timestamp, with the base seed
  \<open>epochMinute * 1000 + hash\<close>: \<^verbatim>\<open>generateRandomMultiplier\<close> returns the entry of the table
  \<^verbatim>\<open>CONFIG.multipliers\<close> at the index \<^verbatim>\<open>getSeededRandomInt(base * 7, 0, length - 1)\<close>,
  which lies in the table, and the text \<^verbatim>\<open>Manual\<close> when
  \<^verbatim>\<open>getSeededRandomInt(base * 11, 0, 1)\<close> is 1, \<^verbatim>\<open>Auto\<close> when it is 0; it is one of the two.
\<close>

theorem generateRandomMultiplier_selection:
  assumes "valid_time now"
  shows "let base = getTimeSeed now * 1000 + stringToHash g;
             idx = getSeededRandomInt (base * 7) 0 (int (length multipliers) - 1);
             flag = getSeededRandomInt (base * 11) 0 1
         in 0 \<le> idx \<and> idx < int (length multipliers) \<and> (flag = 0 \<or> flag = 1) \<and>
            generateRandomMultiplier (IdString g) now
              = Inr \<lparr>mvalue = fst (multipliers ! nat idx), mtype = snd (multipliers ! nat idx),
                     mtext = (if flag = 1 then ''Manual'' else ''Auto'')\<rparr>"
proof -
  define base where "base = getTimeSeed now * 1000 + stringToHash g"
  define idx where "idx = getSeededRandomInt (base * 7) 0 (int (length multipliers) - 1)"
  define flag where "flag = getSeededRandomInt (base * 11) 0 1"
  have hr: "0 \<le> stringToHash g" "stringToHash g \<le> 2147483648"
    using stringToHash_range [of g] by simp_all
  have s7: "js_mul (js_add (js_mul (getTimeSeed now) 1000) (stringToHash g)) 7 = base * 7"
    unfolding base_def by (rule multiplierSeed_exact [OF assms hr])
  have s11: "js_mul (js_add (js_mul (getTimeSeed now) 1000) (stringToHash g)) 11 = base * 11"
    unfolding base_def by (rule textSeed_exact [OF assms hr])
  have ir: "0 \<le> idx" "idx < int (length multipliers)"
    using multiplierIndex_range [of "base * 7"] by (simp_all add: idx_def)
  have fr: "flag = 0 \<or> flag = 1"
    using getSeededRandomInt_range [of 0 1 "base * 11"] unfolding flag_def by auto
  have te: "table_entry idx = Inr (multipliers ! nat idx)"
    using ir by (simp add: table_entry_def)
  have "generateRandomMultiplier (IdString g) now
        = Inr \<lparr>mvalue = fst (multipliers ! nat idx), mtype = snd (multipliers ! nat idx),
               mtext = (if flag = 1 then ''Manual'' else ''Auto'')\<rparr>"
    unfolding generateRandomMultiplier_def gameNumericId_def Let_def game_id.case s7 s11
    unfolding idx_def [symmetric] flag_def [symmetric] te by simp
  with ir fr show ?thesis
    unfolding Let_def base_def [symmetric] idx_def [symmetric] flag_def [symmetric] by simp
qed

theorem generateRandomMultiplier_selection_witness:
  "valid_time scenario_time \<and>
   (let base = getTimeSeed scenario_time * 1000 + stringToHash scenario_game;
        idx = getSeededRandomInt (base * 7) 0 (int (length multipliers) - 1);
        flag = getSeededRandomInt (base * 11) 0 1
    in 0 \<le> idx \<and> idx < int (length multipliers) \<and> (flag = 0 \<or> flag = 1) \<and>
       generateRandomMultiplier (IdString scenario_game) scenario_time
         = Inr \<lparr>mvalue = fst (multipliers ! nat idx), mtype = snd (multipliers ! nat idx),
                mtext = (if flag = 1 then ''Manual'' else ''Auto'')\<rparr>)"
proof -
  have h: "valid_time scenario_time"
    by (simp add: valid_time_def scenario_time_def)
  show ?thesis
    using h generateRandomMultiplier_selection [OF h, of scenario_game] by simp
qed

text \<open>
  C7.  For every game identifier string and every timestamp, the result of
  \<^verbatim>\<open>generateRandomRTP\<close> lies in the configured range, which is 30 to 99 inclusive.
\<close>

theorem generateRandomRTP_range:
  "rtpRanges_min = 30 \<and> rtpRanges_max = 99 \<and>
   rtpRanges_min \<le> generateRandomRTP (IdString g) now \<and>
   generateRandomRTP (IdString g) now \<le> rtpRanges_max"
proof -
  have "rtpRanges_min \<le> rtpRanges_max"
    by (simp add: rtpRanges_min_def rtpRanges_max_def)
  from getSeededRandomInt_range [OF this] show ?thesis
    by (simp add: generateRandomRTP_def Let_def rtpRanges_min_def rtpRanges_max_def)
qed

text \<open>
  C8 (as amended).  For valid timestamps \<open>t1\<close> earlier than \<open>t2\<close> in local calendar time,
  \<^verbatim>\<open>getTimeSeed\<close> does not decrease, and increases strictly when the two lie in different
  minutes, across day, month and year boundaries alike, with one exclusion: \<open>t2\<close> lies in
  the month right after that of \<open>t1\<close> and its minute of the month
  (\<open>day * 1440 + hour * 60 + minute\<close>) is at least 43800 below that of \<open>t1\<close>, which needs
  \<open>t1\<close> on a 31st from 10:00 on and \<open>t2\<close> on the 1st of the next month.
\<close>

theorem getTimeSeed_monotone:
  assumes "valid_time t1" and "valid_time t2" and "earlier t1 t2"
    and "\<not> month_overlap t1 t2"
  shows "getTimeSeed t1 \<le> getTimeSeed t2 \<and>
         (\<not> same_minute t1 t2 \<longrightarrow> getTimeSeed t1 < getTimeSeed t2)"
proof -
  note f1 = getTimeSeed_month_form [OF assms(1)]
  note f2 = getTimeSeed_month_form [OF assms(2)]
  note o1 = minute_of_month_bounds [OF assms(1)]
  note o2 = minute_of_month_bounds [OF assms(2)]
  from earlier_month_index [OF assms(1,2,3)] consider
      (same) "month_index t1 = month_index t2"
    | (following) "month_index t2 = month_index t1 + 1"
    | (later) "month_index t1 + 2 \<le> month_index t2"
    by linarith
  then show ?thesis
  proof cases
    case same
    from same_month_index [OF assms(1,2) same]
    have "FullYear t1 = FullYear t2" and "Month t1 = Month t2"
      by simp_all
    from earlier_same_month [OF assms(3) this assms(1,2)] same show ?thesis
      unfolding f1 f2 by simp
  next
    case following
    with assms(4) have "minute_of_month t1 < minute_of_month t2 + 43800"
      by (simp add: month_overlap_def)
    with following have "getTimeSeed t1 < getTimeSeed t2"
      unfolding f1 f2 by linarith
    then show ?thesis by simp
  next
    case later
    with o1 o2 have "getTimeSeed t1 < getTimeSeed t2"
      unfolding f1 f2 by linarith
    then show ?thesis by simp
  qed
qed

theorem getTimeSeed_monotone_witness:
  "valid_time dec31_0900 \<and> valid_time jan01_0000 \<and> earlier dec31_0900 jan01_0000 \<and>
   \<not> month_overlap dec31_0900 jan01_0000 \<and> \<not> same_minute dec31_0900 jan01_0000 \<and>
   getTimeSeed dec31_0900 < getTimeSeed jan01_0000"
proof -
  have v1: "valid_time dec31_0900"
    by (simp add: valid_time_def dec31_0900_def)
  have v2: "valid_time jan01_0000"
    by (simp add: valid_time_def jan01_0000_def)
  have e: "earlier dec31_0900 jan01_0000"
    by (simp add: earlier_def dec31_0900_def jan01_0000_def)
  have o: "\<not> month_overlap dec31_0900 jan01_0000"
    by (simp add: month_overlap_def month_index_def minute_of_month_def
        dec31_0900_def jan01_0000_def)
  have n: "\<not> same_minute dec31_0900 jan01_0000"
    by (simp add: same_minute_def dec31_0900_def jan01_0000_def)
  show ?thesis
    using v1 v2 e o n getTimeSeed_monotone [OF v1 v2 e o] by simp
qed

text \<open>
  C8 as stated fails across a month boundary: 2024-01-31 23:59 is earlier than
  2024-02-01 00:00, both are valid and lie in different minutes, and the seed of the earlier
  one is the larger.
\<close>

theorem getTimeSeed_month_boundary_counterexample:
  "valid_time jan31_2359 \<and> valid_time feb01_0000 \<and> earlier jan31_2359 feb01_0000 \<and>
   \<not> same_minute jan31_2359 feb01_0000 \<and>
   \<not> getTimeSeed jan31_2359 \<le> getTimeSeed feb01_0000"
proof -
  have v1: "valid_time jan31_2359"
    by (simp add: valid_time_def jan31_2359_def)
  have v2: "valid_time feb01_0000"
    by (simp add: valid_time_def feb01_0000_def)
  have s1: "getTimeSeed jan31_2359 = 1063860479"
    by (simp add: getTimeSeed_exact [OF v1]) (simp add: jan31_2359_def)
  have s2: "getTimeSeed feb01_0000 = 1063859640"
    by (simp add: getTimeSeed_exact [OF v2]) (simp add: feb01_0000_def)
  show ?thesis
    using v1 v2 by (simp add: s1 s2) (simp add: earlier_def same_minute_def jan31_2359_def feb01_0000_def)
qed

text \<open>
  C9.  The tier of an RTP integer \<open>r\<close> is \<^verbatim>\<open>low\<close> exactly when \<open>r < 50\<close>, \<^verbatim>\<open>medium\<close> exactly
  when \<open>50 \<le> r < 70\<close>, and \<^verbatim>\<open>high\<close> exactly when \<open>70 \<le> r\<close>.
\<close>

theorem getRTPColorClass_tiers:
  "(getRTPColorClass r = ''low'' \<longleftrightarrow> r < 50) \<and>
   (getRTPColorClass r = ''medium'' \<longleftrightarrow> 50 \<le> r \<and> r < 70) \<and>
   (getRTPColorClass r = ''high'' \<longleftrightarrow> 70 \<le> r)"
  by (simp add: getRTPColorClass_def)

text \<open>
  C10.  The two variants agree: for every game identifier string and timestamp,
  \<^verbatim>\<open>generateRandomRTP\<close> of \<^verbatim>\<open>src/unnamed/part_000\<close> returns the integer that
  \<^verbatim>\<open>generateRandomRTP\<close> of \<^verbatim>\<open>src/script.js\<close> returns, and its
  \<^verbatim>\<open>generateRandomMultiplier\<close> returns the \<^verbatim>\<open>value\<close> and \<^verbatim>\<open>type\<close> of the object that
  \<^verbatim>\<open>src/script.js\<close> returns, without the \<^verbatim>\<open>text\<close>.
\<close>

theorem variants_agree:
  "generateRandomRTP_part000 (IdString g) now = generateRandomRTP (IdString g) now \<and>
   generateRandomMultiplier_part000 (IdString g) now
     = map_sum id drop_text (generateRandomMultiplier (IdString g) now)"
  by (simp add: generateRandomRTP_part000_def generateRandomRTP_def
      generateRandomMultiplier_part000_def generateRandomMultiplier_def drop_text_def Let_def
      split: sum.split)

end
